theory Spec2Isabelle
  imports Complex_Main "HOL-Library.Multiset"
begin

section \<open>Data model\<close>

text \<open>
  The entity types are imported by \<^verbatim>\<open>server/storage.ts\<close> from \<^verbatim>\<open>@shared/schema\<close>.
  Numbers of the program are IEEE doubles; identifiers and counters are modelled as
  \<open>nat\<close>, timestamps (\<^verbatim>\<open>Date.getTime()\<close>, milliseconds) as \<open>int\<close> and money amounts
  as \<open>real\<close>, so \<^verbatim>\<open>Number(x)\<close> on a numeric field is the identity. Rounding,
  \<^verbatim>\<open>NaN\<close> and \<^verbatim>\<open>Infinity\<close> enter the model where the program divides, in the
  monthly summary.
  Field names carry a prefix per entity kind (\<open>u_\<close>, \<open>a_\<close>, \<open>c_\<close>, \<open>t_\<close>, \<open>b_\<close>)
  because record fields share one name space.
  An entity record extends its insert-shape by the server-assigned fields, as the
  object spread \<^verbatim>\<open>{ ...insertX, id }\<close> does.
\<close>

text \<open>Modelled from the spec: the type \<^verbatim>\<open>InsertUser\<close> / \<^verbatim>\<open>User\<close> of the schema module
  (section 3: id, username, email, password, name, createdAt).\<close>

record InsertUser =
  u_username :: string
  u_password :: string
  u_email :: string
  u_name :: string

record User = InsertUser +
  u_id :: nat
  u_createdAt :: int

text \<open>Modelled from the spec: the type \<^verbatim>\<open>InsertAccount\<close> / \<^verbatim>\<open>Account\<close> of the schema
  module (section 3: id, userId, name, type, balance, isConnected).\<close>

record InsertAccount =
  a_userId :: nat
  a_name :: string
  a_type :: string
  a_balance :: real
  a_isConnected :: bool

record Account = InsertAccount +
  a_id :: nat

text \<open>Modelled from the spec: the type \<^verbatim>\<open>InsertCategory\<close> / \<^verbatim>\<open>Category\<close> of the schema
  module (section 3: id, userId, name, type, color, icon).\<close>

record InsertCategory =
  c_userId :: nat
  c_name :: string
  c_type :: string
  c_color :: string
  c_icon :: string

record Category = InsertCategory +
  c_id :: nat

text \<open>Modelled from the spec: the type \<^verbatim>\<open>InsertTransaction\<close> / \<^verbatim>\<open>Transaction\<close> of the
  schema module (section 3: id, userId, accountId, optional categoryId, amount,
  description, date, type, paymentMethod). An absent (\<^verbatim>\<open>null\<close> or \<^verbatim>\<open>undefined\<close>)
  categoryId is \<open>None\<close>.\<close>

record InsertTransaction =
  t_userId :: nat
  t_accountId :: nat
  t_categoryId :: "nat option"
  t_amount :: real
  t_description :: string
  t_date :: int
  t_type :: string
  t_paymentMethod :: string

record Transaction = InsertTransaction +
  t_id :: nat

text \<open>Modelled from the spec: the type \<^verbatim>\<open>InsertBudget\<close> / \<^verbatim>\<open>Budget\<close> of the schema
  module (section 3: id, userId, categoryId, amount, period, startDate, endDate).\<close>

record InsertBudget =
  b_userId :: nat
  b_categoryId :: nat
  b_amount :: real
  b_period :: string
  b_startDate :: int
  b_endDate :: int

record Budget = InsertBudget +
  b_id :: nat

section \<open>The JavaScript \<^verbatim>\<open>Map\<close>\<close>

text \<open>
  A \<^verbatim>\<open>Map<number, T>\<close> iterates in insertion order, and \<^verbatim>\<open>set\<close> on a key that is
  already present replaces the value where it stands. The model is an association list
  in insertion order.
\<close>

type_synonym 'v jsmap = "(nat \<times> 'v) list"

fun mapGet :: "'v jsmap \<Rightarrow> nat \<Rightarrow> 'v option" where
  "mapGet [] k = None"
| "mapGet ((k', v) # m) k = (if k' = k then Some v else mapGet m k)"

fun mapSet :: "'v jsmap \<Rightarrow> nat \<Rightarrow> 'v \<Rightarrow> 'v jsmap" where
  "mapSet [] k v = [(k, v)]"
| "mapSet ((k', v') # m) k v = (if k' = k then (k, v) # m else (k', v') # mapSet m k v)"

definition mapValues :: "'v jsmap \<Rightarrow> 'v list" where
  "mapValues m = map snd m"

section \<open>\<^verbatim>\<open>MemStorage\<close>\<close>

record MemStorage =
  users :: "User jsmap"
  accounts :: "Account jsmap"
  categories :: "Category jsmap"
  transactions :: "Transaction jsmap"
  budgets :: "Budget jsmap"
  userIdCounter :: nat
  accountIdCounter :: nat
  categoryIdCounter :: nat
  transactionIdCounter :: nat
  budgetIdCounter :: nat

text \<open>The constructor: five empty maps, every counter at 1.\<close>

definition newMemStorage :: MemStorage where
  "newMemStorage =
     \<lparr>users = [], accounts = [], categories = [], transactions = [], budgets = [],
      userIdCounter = 1, accountIdCounter = 1, categoryIdCounter = 1,
      transactionIdCounter = 1, budgetIdCounter = 1\<rparr>"

text \<open>
  Every method takes the store and returns its result with the store after the call.
  \<^verbatim>\<open>createUser\<close> reads the clock (\<^verbatim>\<open>new Date()\<close>); the time read is the
  argument \<open>now\<close>.
\<close>

definition createUser :: "InsertUser \<Rightarrow> int \<Rightarrow> MemStorage \<Rightarrow> User \<times> MemStorage" where
  "createUser insertUser now s =
     (let ident = userIdCounter s;
          s1 = s\<lparr>userIdCounter := userIdCounter s + 1\<rparr>;
          createdAt = now;
          user = InsertUser.extend insertUser (User.fields ident createdAt)
      in (user, s1\<lparr>users := mapSet (users s1) ident user\<rparr>))"

definition getAccount :: "nat \<Rightarrow> MemStorage \<Rightarrow> Account option" where
  "getAccount ident s = mapGet (accounts s) ident"

definition getAccountsByUserId :: "nat \<Rightarrow> MemStorage \<Rightarrow> Account list" where
  "getAccountsByUserId userId s =
     filter (\<lambda>account. a_userId account = userId) (mapValues (accounts s))"

definition createAccount :: "InsertAccount \<Rightarrow> MemStorage \<Rightarrow> Account \<times> MemStorage" where
  "createAccount insertAccount s =
     (let ident = accountIdCounter s;
          s1 = s\<lparr>accountIdCounter := accountIdCounter s + 1\<rparr>;
          account = InsertAccount.extend insertAccount (Account.fields ident)
      in (account, s1\<lparr>accounts := mapSet (accounts s1) ident account\<rparr>))"

text \<open>The only exception the storage throws: \<^verbatim>\<open>Account with ID ... not found\<close>.\<close>

datatype error = NotFound nat

definition updateAccountBalance ::
    "nat \<Rightarrow> real \<Rightarrow> MemStorage \<Rightarrow> (error + Account) \<times> MemStorage" where
  "updateAccountBalance ident balance s =
     (case mapGet (accounts s) ident of
        None \<Rightarrow> (Inl (NotFound ident), s)
      | Some account \<Rightarrow>
          (let updatedAccount = account\<lparr>a_balance := balance\<rparr>
           in (Inr updatedAccount, s\<lparr>accounts := mapSet (accounts s) ident updatedAccount\<rparr>)))"

definition createCategory :: "InsertCategory \<Rightarrow> MemStorage \<Rightarrow> Category \<times> MemStorage" where
  "createCategory insertCategory s =
     (let ident = categoryIdCounter s;
          s1 = s\<lparr>categoryIdCounter := categoryIdCounter s + 1\<rparr>;
          category = InsertCategory.extend insertCategory (Category.fields ident)
      in (category, s1\<lparr>categories := mapSet (categories s1) ident category\<rparr>))"

definition createTransaction ::
    "InsertTransaction \<Rightarrow> MemStorage \<Rightarrow> Transaction \<times> MemStorage" where
  "createTransaction insertTransaction s =
     (let ident = transactionIdCounter s;
          s1 = s\<lparr>transactionIdCounter := transactionIdCounter s + 1\<rparr>;
          transaction = InsertTransaction.extend insertTransaction (Transaction.fields ident)
      in (transaction, s1\<lparr>transactions := mapSet (transactions s1) ident transaction\<rparr>))"

subsection \<open>Transaction queries\<close>

text \<open>
  \<^verbatim>\<open>Array.prototype.sort(compareFn)\<close> is a stable sort: \<open>a\<close> stays before \<open>b\<close>
  unless \<open>compareFn(a, b) > 0\<close>. The model is a stable insertion sort driven by the same
  comparator.
\<close>

fun insertBy :: "('a \<Rightarrow> 'a \<Rightarrow> int) \<Rightarrow> 'a \<Rightarrow> 'a list \<Rightarrow> 'a list" where
  "insertBy compareFn x [] = [x]"
| "insertBy compareFn x (y # ys) =
     (if compareFn x y \<le> 0 then x # y # ys else y # insertBy compareFn x ys)"

definition arraySort :: "('a \<Rightarrow> 'a \<Rightarrow> int) \<Rightarrow> 'a list \<Rightarrow> 'a list" where
  "arraySort compareFn xs = foldr (insertBy compareFn) xs []"

text \<open>\<^verbatim>\<open>Array.prototype.slice(start, end)\<close> on integer arguments: a negative index counts
  from the end of the array, and both indices are clamped to the array.\<close>

definition arraySlice :: "int \<Rightarrow> int \<Rightarrow> 'a list \<Rightarrow> 'a list" where
  "arraySlice start end xs =
     (let len = int (length xs);
          k = (if start < 0 then max (len + start) 0 else min start len);
          final = (if end < 0 then max (len + end) 0 else min end len)
      in take (nat (final - k)) (drop (nat k) xs))"

text \<open>The comparator \<^verbatim>\<open>(a, b) => new Date(b.date).getTime() - new Date(a.date).getTime()\<close>.\<close>

definition byDateDesc :: "Transaction \<Rightarrow> Transaction \<Rightarrow> int" where
  "byDateDesc a b = t_date b - t_date a"

definition getTransactionsByUserId :: "nat \<Rightarrow> MemStorage \<Rightarrow> Transaction list" where
  "getTransactionsByUserId userId s =
     arraySort byDateDesc
       (filter (\<lambda>transaction. t_userId transaction = userId) (mapValues (transactions s)))"

definition getTransactionsByDateRange ::
    "nat \<Rightarrow> int \<Rightarrow> int \<Rightarrow> MemStorage \<Rightarrow> Transaction list" where
  "getTransactionsByDateRange userId startDate endDate s =
     arraySort byDateDesc
       (filter (\<lambda>transaction.
                  let transactionDate = t_date transaction
                  in t_userId transaction = userId \<and>
                     transactionDate \<ge> startDate \<and>
                     transactionDate \<le> endDate)
               (mapValues (transactions s)))"

definition getRecentTransactions :: "nat \<Rightarrow> int \<Rightarrow> MemStorage \<Rightarrow> Transaction list" where
  "getRecentTransactions userId limit s =
     arraySlice 0 limit
       (arraySort byDateDesc
          (filter (\<lambda>transaction. t_userId transaction = userId) (mapValues (transactions s))))"



definition createBudget :: "InsertBudget \<Rightarrow> MemStorage \<Rightarrow> Budget \<times> MemStorage" where
  "createBudget insertBudget s =
     (let ident = budgetIdCounter s;
          s1 = s\<lparr>budgetIdCounter := budgetIdCounter s + 1\<rparr>;
          budget = InsertBudget.extend insertBudget (Budget.fields ident)
      in (budget, s1\<lparr>budgets := mapSet (budgets s1) ident budget\<rparr>))"

section \<open>Route handlers\<close>

text \<open>
  The handlers of \<^verbatim>\<open>server/routes.ts\<close> run behind \<^verbatim>\<open>isAuthenticated\<close>, which
  supplies the session's \<open>userId\<close>. A response is its status code and its JSON payload.
\<close>

datatype payload =
    TransactionJson Transaction
  | TransactionsJson "Transaction list"
  | MessageJson string
  | ZodErrorsJson

datatype response = Response (status: nat) (json: payload)

subsection \<open>\<^verbatim>\<open>POST /api/transactions\<close>\<close>

text \<open>
  \<^verbatim>\<open>insertTransactionSchema\<close> belongs to the schema module, so its \<^verbatim>\<open>parse\<close> is the
  parameter \<open>parse\<close>: \<open>None\<close> stands for the \<^verbatim>\<open>ZodError\<close> it throws. The request body is
  taken in the shape of the insert record. The \<^verbatim>\<open>catch\<close> block answers 400 to a
  \<^verbatim>\<open>ZodError\<close> and 500 to any other exception; the store keeps what was written before
  the exception.
\<close>

definition postTransactions ::
    "(InsertTransaction \<Rightarrow> InsertTransaction option) \<Rightarrow> nat \<Rightarrow> InsertTransaction \<Rightarrow>
     MemStorage \<Rightarrow> response \<times> MemStorage" where
  "postTransactions parse userId reqBody s =
     (let transaction = reqBody\<lparr>t_userId := userId\<rparr>
      in case parse transaction of
           None \<Rightarrow> (Response 400 ZodErrorsJson, s)
         | Some validatedData \<Rightarrow>
             (let (createdTransaction, s1) = createTransaction validatedData s;
                  accountId = t_accountId validatedData;
                  amount = t_amount validatedData;
                  type = t_type validatedData
              in case getAccount accountId s1 of
                   None \<Rightarrow> (Response 201 (TransactionJson createdTransaction), s1)
                 | Some account \<Rightarrow>
                     (let newBalance =
                            (if type = ''income'' then a_balance account + amount
                             else a_balance account - amount)
                      in case updateAccountBalance accountId newBalance s1 of
                           (Inl e, s2) \<Rightarrow>
                             (Response 500 (MessageJson ''Failed to create transaction''), s2)
                         | (Inr updated, s2) \<Rightarrow>
                             (Response 201 (TransactionJson createdTransaction), s2))))"

subsection \<open>\<^verbatim>\<open>GET /api/transactions\<close>\<close>

text \<open>
  \<^verbatim>\<open>subDays\<close> comes from the library \<^verbatim>\<open>date-fns\<close> and the start of the year from
  the \<^verbatim>\<open>Date\<close> constructor (\<^verbatim>\<open>new Date(endDate.getFullYear(), 0, 1)\<close>); both work in
  the local time zone of the process, so the handler takes them as the record \<open>lib\<close>.
  The query parameter \<^verbatim>\<open>timeFrame\<close> is \<open>None\<close> when the request has none; a repeated
  or nested parameter is no string either and takes the \<^verbatim>\<open>default\<close> branch as well.
\<close>

record DateLib =
  subDays :: "int \<Rightarrow> nat \<Rightarrow> int"
  startOfYear :: "int \<Rightarrow> int"

definition feedStartDate :: "DateLib \<Rightarrow> string option \<Rightarrow> int \<Rightarrow> int" where
  "feedStartDate lib timeFrame endDate =
     (if timeFrame = Some ''7days'' then subDays lib endDate 7
      else if timeFrame = Some ''30days'' then subDays lib endDate 30
      else if timeFrame = Some ''90days'' then subDays lib endDate 90
      else if timeFrame = Some ''year'' then startOfYear lib endDate
      else subDays lib endDate 7)"

text \<open>
  The category filter \<^verbatim>\<open>categoryId && categoryId !== "all"\<close> compares against
  \<^verbatim>\<open>Number(categoryId)\<close>; the parameter \<open>categoryFilter\<close> is that number when the
  filter applies and \<open>None\<close> when it does not. A categoryId that does not read as a
  number is outside the model.
\<close>

definition getTransactionsFeed ::
    "DateLib \<Rightarrow> nat \<Rightarrow> string option \<Rightarrow> nat option \<Rightarrow> int \<Rightarrow> MemStorage \<Rightarrow> response" where
  "getTransactionsFeed lib userId timeFrame categoryFilter now s =
     (let endDate = now;
          startDate = feedStartDate lib timeFrame endDate;
          found = getTransactionsByDateRange userId startDate endDate s;
          kept = (case categoryFilter of
                    None \<Rightarrow> found
                  | Some c \<Rightarrow> filter (\<lambda>t. t_categoryId t = Some c) found)
      in Response 200 (TransactionsJson kept))"

text \<open>
  A concrete \<open>DateLib\<close> for a process whose time zone is UTC: a day is 86400000 ms, and
  the year of a timestamp follows the proleptic Gregorian calendar.
\<close>

definition utcYear :: "int \<Rightarrow> int" where
  "utcYear ms =
     (let z = ms div 86400000 + 719468;
          era = z div 146097;
          doe = z - era * 146097;
          yoe = (doe - doe div 1460 + doe div 36524 - doe div 146096) div 365;
          doy = doe - (365 * yoe + yoe div 4 - yoe div 100);
          mp = (5 * doy + 2) div 153
      in yoe + era * 400 + (if mp < 10 then 0 else 1))"

definition utcYearStart :: "int \<Rightarrow> int" where
  "utcYearStart y =
     (let p = y - 1;
          era = p div 400;
          yoe = p - era * 400
      in (era * 146097 + yoe * 365 + yoe div 4 - yoe div 100 + 306 - 719468) * 86400000)"

definition utcDateLib :: DateLib where
  "utcDateLib =
     \<lparr>subDays = (\<lambda>d n. d - int n * 86400000),
      startOfYear = (\<lambda>d. utcYearStart (utcYear d))\<rparr>"

subsection \<open>\<^verbatim>\<open>GET /api/budgets/progress/:yearMonth\<close>\<close>





subsection \<open>\<^verbatim>\<open>GET /api/summary\<close>\<close>

text \<open>
  The month bounds come from \<^verbatim>\<open>date-fns\<close> and the clock; they are arguments. The
  placeholder series \<^verbatim>\<open>monthlyData\<close> is a constant list and is left out of the record.
\<close>

text \<open>
  This handler divides, so its numbers are modelled with the two infinities and
  \<^verbatim>\<open>NaN\<close> of the doubles. The stored amounts are finite. An operation on finite
  numbers returns the rounded exact result, an infinity when it overflows; that rounding
  is the parameter \<open>rnd\<close>, and \<open>Finite\<close> in its place is exact arithmetic. The sign of a
  zero is not modelled: it shows only in a division by zero, where the zero is taken as
  \<^verbatim>\<open>+0\<close>, the only zero that sums and differences return.
\<close>

datatype jsnum = Finite real | PosInfinity | NegInfinity | NaN

fun jsNeg :: "jsnum \<Rightarrow> jsnum" where
  "jsNeg (Finite a) = Finite (- a)"
| "jsNeg PosInfinity = NegInfinity"
| "jsNeg NegInfinity = PosInfinity"
| "jsNeg NaN = NaN"

fun jsAdd :: "(real \<Rightarrow> jsnum) \<Rightarrow> jsnum \<Rightarrow> jsnum \<Rightarrow> jsnum" where
  "jsAdd rnd NaN y = NaN"
| "jsAdd rnd x NaN = NaN"
| "jsAdd rnd (Finite a) (Finite b) = rnd (a + b)"
| "jsAdd rnd (Finite a) y = y"
| "jsAdd rnd x (Finite b) = x"
| "jsAdd rnd x y = (if x = y then x else NaN)"

definition jsSub :: "(real \<Rightarrow> jsnum) \<Rightarrow> jsnum \<Rightarrow> jsnum \<Rightarrow> jsnum" where
  "jsSub rnd x y = jsAdd rnd x (jsNeg y)"

fun jsMul :: "(real \<Rightarrow> jsnum) \<Rightarrow> jsnum \<Rightarrow> jsnum \<Rightarrow> jsnum" where
  "jsMul rnd NaN y = NaN"
| "jsMul rnd x NaN = NaN"
| "jsMul rnd (Finite a) (Finite b) = rnd (a * b)"
| "jsMul rnd (Finite a) y =
     (if a = 0 then NaN else if (0 < a) = (y = PosInfinity) then PosInfinity else NegInfinity)"
| "jsMul rnd x (Finite b) =
     (if b = 0 then NaN else if (0 < b) = (x = PosInfinity) then PosInfinity else NegInfinity)"
| "jsMul rnd x y = (if x = y then PosInfinity else NegInfinity)"

fun jsDiv :: "(real \<Rightarrow> jsnum) \<Rightarrow> jsnum \<Rightarrow> jsnum \<Rightarrow> jsnum" where
  "jsDiv rnd NaN y = NaN"
| "jsDiv rnd x NaN = NaN"
| "jsDiv rnd (Finite a) (Finite b) =
     (if b = 0 then (if a = 0 then NaN else if 0 < a then PosInfinity else NegInfinity)
      else rnd (a / b))"
| "jsDiv rnd (Finite a) y = Finite 0"
| "jsDiv rnd x (Finite b) =
     (if (0 \<le> b) = (x = PosInfinity) then PosInfinity else NegInfinity)"
| "jsDiv rnd x y = NaN"

record Summary =
  totalBalance :: jsnum
  balanceChange :: jsnum
  monthlyIncome :: jsnum
  incomeChange :: jsnum
  monthlyExpenses :: jsnum
  expensesChange :: jsnum
  monthlySavings :: jsnum
  savingsChange :: jsnum

text \<open>\<^verbatim>\<open>.reduce((sum, t) => sum + Number(t.amount), 0)\<close>\<close>

definition sumAmounts :: "(real \<Rightarrow> jsnum) \<Rightarrow> Transaction list \<Rightarrow> jsnum" where
  "sumAmounts rnd ts = foldl (\<lambda>sum t. jsAdd rnd sum (Finite (t_amount t))) (Finite 0) ts"

definition getSummary ::
    "(real \<Rightarrow> jsnum) \<Rightarrow> nat \<Rightarrow> int \<Rightarrow> int \<Rightarrow> int \<Rightarrow> int \<Rightarrow> MemStorage \<Rightarrow> Summary" where
  "getSummary rnd userId currentMonthStart currentMonthEnd prevMonthStart prevMonthEnd s =
     (let currentMonthTransactions =
            getTransactionsByDateRange userId currentMonthStart currentMonthEnd s;
          prevMonthTransactions =
            getTransactionsByDateRange userId prevMonthStart prevMonthEnd s;
          currentIncome =
            sumAmounts rnd (filter (\<lambda>t. t_type t = ''income'') currentMonthTransactions);
          currentExpenses =
            sumAmounts rnd (filter (\<lambda>t. t_type t = ''expense'') currentMonthTransactions);
          currentSavings = jsSub rnd currentIncome currentExpenses;
          prevIncome =
            sumAmounts rnd (filter (\<lambda>t. t_type t = ''income'') prevMonthTransactions);
          prevExpenses =
            sumAmounts rnd (filter (\<lambda>t. t_type t = ''expense'') prevMonthTransactions);
          prevSavings = jsSub rnd prevIncome prevExpenses;
          incomeChange =
            (if prevIncome = Finite 0 then Finite 0
             else jsMul rnd (jsDiv rnd (jsSub rnd currentIncome prevIncome) prevIncome)
                    (Finite 100));
          expensesChange =
            (if prevExpenses = Finite 0 then Finite 0
             else jsMul rnd (jsDiv rnd (jsSub rnd currentExpenses prevExpenses) prevExpenses)
                    (Finite 100));
          savingsChange =
            (if prevSavings = Finite 0 then Finite 0
             else jsMul rnd (jsDiv rnd (jsSub rnd currentSavings prevSavings) prevSavings)
                    (Finite 100));
          accounts = getAccountsByUserId userId s;
          totalBalance =
            foldl (\<lambda>sum account. jsAdd rnd sum (Finite (a_balance account))) (Finite 0)
              accounts;
          balanceChange = Finite 2.5
      in \<lparr>totalBalance = totalBalance, balanceChange = balanceChange,
          monthlyIncome = currentIncome, incomeChange = incomeChange,
          monthlyExpenses = currentExpenses, expensesChange = expensesChange,
          monthlySavings = currentSavings, savingsChange = savingsChange\<rparr>)"

section \<open>Call sequences\<close>

text \<open>
  The store changes only through the five \<^verbatim>\<open>create\<close> methods and
  \<^verbatim>\<open>updateAccountBalance\<close>. A call sequence runs them one after the other;
  each \<^verbatim>\<open>create\<close> reports the kind and the id of the entity it returned.
\<close>

datatype kind = UserKind | AccountKind | CategoryKind | TransactionKind | BudgetKind

datatype call =
    CreateUser InsertUser int
  | CreateAccount InsertAccount
  | CreateCategory InsertCategory
  | CreateTransaction InsertTransaction
  | CreateBudget InsertBudget
  | UpdateAccountBalance nat real

fun createdKind :: "call \<Rightarrow> kind option" where
  "createdKind (CreateUser x now) = Some UserKind"
| "createdKind (CreateAccount x) = Some AccountKind"
| "createdKind (CreateCategory x) = Some CategoryKind"
| "createdKind (CreateTransaction x) = Some TransactionKind"
| "createdKind (CreateBudget x) = Some BudgetKind"
| "createdKind (UpdateAccountBalance i b) = None"

fun perform :: "call \<Rightarrow> MemStorage \<Rightarrow> (kind \<times> nat) option \<times> MemStorage" where
  "perform (CreateUser x now) s =
     (let (user, s') = createUser x now s in (Some (UserKind, u_id user), s'))"
| "perform (CreateAccount x) s =
     (let (account, s') = createAccount x s in (Some (AccountKind, a_id account), s'))"
| "perform (CreateCategory x) s =
     (let (category, s') = createCategory x s in (Some (CategoryKind, c_id category), s'))"
| "perform (CreateTransaction x) s =
     (let (transaction, s') = createTransaction x s
      in (Some (TransactionKind, t_id transaction), s'))"
| "perform (CreateBudget x) s =
     (let (budget, s') = createBudget x s in (Some (BudgetKind, b_id budget), s'))"
| "perform (UpdateAccountBalance i b) s = (None, snd (updateAccountBalance i b s))"

fun performAll :: "call list \<Rightarrow> MemStorage \<Rightarrow> (kind \<times> nat) list \<times> MemStorage" where
  "performAll [] s = ([], s)"
| "performAll (c # cs) s =
     (let (r, s1) = perform c s;
          (rs, s2) = performAll cs s1
      in ((case r of None \<Rightarrow> rs | Some x \<Rightarrow> x # rs), s2))"

definition idsOf :: "kind \<Rightarrow> (kind \<times> nat) list \<Rightarrow> nat list" where
  "idsOf k rs = map snd (filter (\<lambda>r. fst r = k) rs)"

fun counterOf :: "kind \<Rightarrow> MemStorage \<Rightarrow> nat" where
  "counterOf UserKind s = userIdCounter s"
| "counterOf AccountKind s = accountIdCounter s"
| "counterOf CategoryKind s = categoryIdCounter s"
| "counterOf TransactionKind s = transactionIdCounter s"
| "counterOf BudgetKind s = budgetIdCounter s"

text \<open>
  The keys of a map and the ids of the entities stored in it; the store invariant says
  that for every kind both are \<open>1, 2, ..., counter - 1\<close> in insertion order.
\<close>

fun keysOf :: "kind \<Rightarrow> MemStorage \<Rightarrow> nat list" where
  "keysOf UserKind s = map fst (users s)"
| "keysOf AccountKind s = map fst (accounts s)"
| "keysOf CategoryKind s = map fst (categories s)"
| "keysOf TransactionKind s = map fst (transactions s)"
| "keysOf BudgetKind s = map fst (budgets s)"

fun storedIds :: "kind \<Rightarrow> MemStorage \<Rightarrow> nat list" where
  "storedIds UserKind s = map u_id (mapValues (users s))"
| "storedIds AccountKind s = map a_id (mapValues (accounts s))"
| "storedIds CategoryKind s = map c_id (mapValues (categories s))"
| "storedIds TransactionKind s = map t_id (mapValues (transactions s))"
| "storedIds BudgetKind s = map b_id (mapValues (budgets s))"

definition storeInv :: "MemStorage \<Rightarrow> bool" where
  "storeInv s \<longleftrightarrow>
     (\<forall>k. 1 \<le> counterOf k s \<and> keysOf k s = [1 ..< counterOf k s] \<and>
          storedIds k s = [1 ..< counterOf k s])"

section \<open>Example data\<close>

text \<open>
  Two users. User 1 has a checking account, the categories Food (1) and Income (2), a
  budget on Food, and transactions in January 2024 and December 2023 (timestamps are
  UTC milliseconds). User 2 has the category Travel (3), a budget on it and one expense.
\<close>

definition demoUser :: InsertUser where
  "demoUser = \<lparr>u_username = ''demo'', u_password = ''password'',
                u_email = ''demo@example.com'', u_name = ''Demo User''\<rparr>"

definition otherUser :: InsertUser where
  "otherUser = \<lparr>u_username = ''other'', u_password = ''secret'',
                 u_email = ''other@example.com'', u_name = ''Other User''\<rparr>"

definition demoAccount :: InsertAccount where
  "demoAccount = \<lparr>a_userId = 1, a_name = ''Checking Account'', a_type = ''checking'',
                   a_balance = 5000, a_isConnected = False\<rparr>"

definition foodCategory :: InsertCategory where
  "foodCategory = \<lparr>c_userId = 1, c_name = ''Food'', c_type = ''expense'',
                    c_color = ''#3498DB'', c_icon = ''shopping-cart''\<rparr>"

definition incomeCategory :: InsertCategory where
  "incomeCategory = \<lparr>c_userId = 1, c_name = ''Income'', c_type = ''income'',
                      c_color = ''#2ECC71'', c_icon = ''dollar-sign''\<rparr>"

definition foodBudget :: InsertBudget where
  "foodBudget = \<lparr>b_userId = 1, b_categoryId = 1, b_amount = 200, b_period = ''monthly'',
                  b_startDate = 1704067200000, b_endDate = 1706745600000\<rparr>"

definition travelCategory :: InsertCategory where
  "travelCategory = \<lparr>c_userId = 2, c_name = ''Travel'', c_type = ''expense'',
                      c_color = ''#E74C3C'', c_icon = ''car''\<rparr>"

definition travelBudget :: InsertBudget where
  "travelBudget = \<lparr>b_userId = 2, b_categoryId = 3, b_amount = 100, b_period = ''monthly'',
                    b_startDate = 1704067200000, b_endDate = 1706745600000\<rparr>"

definition jan1 :: int where "jan1 = 1704067200000"
definition jan10 :: int where "jan10 = 1704844800000"
definition jan15 :: int where "jan15 = 1705276800000"
definition janEnd :: int where "janEnd = 1706745599999"
definition dec1 :: int where "dec1 = 1701388800000"
definition dec15 :: int where "dec15 = 1702598400000"
definition decEnd :: int where "decEnd = 1704067199999"

definition txn :: "nat \<Rightarrow> nat option \<Rightarrow> real \<Rightarrow> int \<Rightarrow> string \<Rightarrow> InsertTransaction" where
  "txn userId categoryId amount date type =
     \<lparr>t_userId = userId, t_accountId = 1, t_categoryId = categoryId, t_amount = amount,
      t_description = ''item'', t_date = date, t_type = type,
      t_paymentMethod = ''Debit Card''\<rparr>"

definition exampleCalls :: "call list" where
  "exampleCalls =
     [CreateUser demoUser 1700000000000,
      CreateUser otherUser 1700000000001,
      CreateAccount demoAccount,
      CreateCategory foodCategory,
      CreateCategory incomeCategory,
      CreateCategory travelCategory,
      CreateBudget foodBudget,
      CreateBudget travelBudget,
      CreateTransaction (txn 1 (Some 1) 50 jan1 ''expense''),
      CreateTransaction (txn 1 (Some 1) 30 jan15 ''expense''),
      CreateTransaction (txn 1 (Some 2) 500 jan10 ''income''),
      CreateTransaction (txn 1 None 20 janEnd ''expense''),
      CreateTransaction (txn 1 (Some 1) 40 dec15 ''expense''),
      CreateTransaction (txn 2 (Some 3) 50 jan10 ''expense'')]"

definition exampleStore :: MemStorage where
  "exampleStore = snd (performAll exampleCalls newMemStorage)"

text \<open>The schema check of the examples accepts every record as it is.\<close>

definition acceptAll :: "InsertTransaction \<Rightarrow> InsertTransaction option" where
  "acceptAll x = Some x"

definition storedTxn :: "nat \<Rightarrow> InsertTransaction \<Rightarrow> Transaction" where
  "storedTxn i t = InsertTransaction.extend t (Transaction.fields i)"


definition orphanRequest :: InsertTransaction where
  "orphanRequest = (txn 1 None 25 jan10 ''income'')\<lparr>t_accountId := 9\<rparr>"

section \<open>The aggregates in the words of the specification\<close>

text \<open>
  The total of a month and type in exact arithmetic: the sum of the amounts of the
  user's transactions of that type dated from \<open>lo\<close> to \<open>hi\<close>, both included.
\<close>

definition monthTotal :: "string \<Rightarrow> nat \<Rightarrow> int \<Rightarrow> int \<Rightarrow> MemStorage \<Rightarrow> real" where
  "monthTotal type u lo hi s =
     sum_list (map t_amount
       (filter (\<lambda>t. t_userId t = u \<and> lo \<le> t_date t \<and> t_date t \<le> hi \<and> t_type t = type)
          (mapValues (transactions s))))"


text \<open>
  The value of a month as the summary adds it up: the amounts of the user's
  transactions of one type dated in the month, summed in the machine's arithmetic in the
  order of the listing. The savings of a month are its income minus its expenses, and the
  percent change of a value is \<open>((current - previous) / previous) * 100\<close>.
\<close>

definition monthSum ::
    "(real \<Rightarrow> jsnum) \<Rightarrow> string \<Rightarrow> nat \<Rightarrow> int \<Rightarrow> int \<Rightarrow> MemStorage \<Rightarrow> jsnum" where
  "monthSum rnd type u lo hi s =
     sumAmounts rnd (filter (\<lambda>t. t_type t = type) (getTransactionsByDateRange u lo hi s))"

definition monthSavings ::
    "(real \<Rightarrow> jsnum) \<Rightarrow> nat \<Rightarrow> int \<Rightarrow> int \<Rightarrow> MemStorage \<Rightarrow> jsnum" where
  "monthSavings rnd u lo hi s =
     jsSub rnd (monthSum rnd ''income'' u lo hi s) (monthSum rnd ''expense'' u lo hi s)"

definition percentChange :: "(real \<Rightarrow> jsnum) \<Rightarrow> jsnum \<Rightarrow> jsnum \<Rightarrow> jsnum" where
  "percentChange rnd current previous =
     jsMul rnd (jsDiv rnd (jsSub rnd current previous) previous) (Finite 100)"

section \<open>Properties of the map\<close>

lemma mapGet_mapSet: "mapGet (mapSet m k v) k' = (if k' = k then Some v else mapGet m k')"
  by (induction m) auto

lemma mapSet_keys_present:
  "mapGet m k = Some w \<Longrightarrow> map fst (mapSet m k v) = map fst m"
  by (induction m) (auto split: if_splits)

lemma mapSet_keys_absent:
  "mapGet m k = None \<Longrightarrow> mapSet m k v = m @ [(k, v)]"
  by (induction m) (auto split: if_splits)

lemma mapGet_None_iff: "mapGet m k = None \<longleftrightarrow> k \<notin> fst ` set m"
  by (induction m) (auto split: if_splits)

section \<open>The example store\<close>

lemmas record_defs =
  InsertUser.defs User.defs InsertAccount.defs Account.defs InsertCategory.defs Category.defs
  InsertTransaction.defs Transaction.defs InsertBudget.defs Budget.defs

lemmas example_defs =
  demoUser_def otherUser_def demoAccount_def foodCategory_def incomeCategory_def
  travelCategory_def foodBudget_def travelBudget_def txn_def
  jan1_def jan10_def jan15_def janEnd_def dec1_def dec15_def decEnd_def

lemmas create_defs =
  createUser_def createAccount_def createCategory_def createTransaction_def createBudget_def

lemma exampleStore_eq:
  "exampleStore =
   \<lparr>users =
      [(1, \<lparr>u_username = ''demo'', u_password = ''password'',
              u_email = ''demo@example.com'', u_name = ''Demo User'',
              u_id = 1, u_createdAt = 1700000000000\<rparr>),
       (2, \<lparr>u_username = ''other'', u_password = ''secret'',
              u_email = ''other@example.com'', u_name = ''Other User'',
              u_id = 2, u_createdAt = 1700000000001\<rparr>)],
    accounts =
      [(1, \<lparr>a_userId = 1, a_name = ''Checking Account'', a_type = ''checking'',
              a_balance = 5000, a_isConnected = False, a_id = 1\<rparr>)],
    categories =
      [(1, \<lparr>c_userId = 1, c_name = ''Food'', c_type = ''expense'',
              c_color = ''#3498DB'', c_icon = ''shopping-cart'', c_id = 1\<rparr>),
       (2, \<lparr>c_userId = 1, c_name = ''Income'', c_type = ''income'',
              c_color = ''#2ECC71'', c_icon = ''dollar-sign'', c_id = 2\<rparr>),
       (3, \<lparr>c_userId = 2, c_name = ''Travel'', c_type = ''expense'',
              c_color = ''#E74C3C'', c_icon = ''car'', c_id = 3\<rparr>)],
    transactions =
      [(1, \<lparr>t_userId = 1, t_accountId = 1, t_categoryId = Some 1, t_amount = 50,
              t_description = ''item'', t_date = 1704067200000, t_type = ''expense'',
              t_paymentMethod = ''Debit Card'', t_id = 1\<rparr>),
       (2, \<lparr>t_userId = 1, t_accountId = 1, t_categoryId = Some 1, t_amount = 30,
              t_description = ''item'', t_date = 1705276800000, t_type = ''expense'',
              t_paymentMethod = ''Debit Card'', t_id = 2\<rparr>),
       (3, \<lparr>t_userId = 1, t_accountId = 1, t_categoryId = Some 2, t_amount = 500,
              t_description = ''item'', t_date = 1704844800000, t_type = ''income'',
              t_paymentMethod = ''Debit Card'', t_id = 3\<rparr>),
       (4, \<lparr>t_userId = 1, t_accountId = 1, t_categoryId = None, t_amount = 20,
              t_description = ''item'', t_date = 1706745599999, t_type = ''expense'',
              t_paymentMethod = ''Debit Card'', t_id = 4\<rparr>),
       (5, \<lparr>t_userId = 1, t_accountId = 1, t_categoryId = Some 1, t_amount = 40,
              t_description = ''item'', t_date = 1702598400000, t_type = ''expense'',
              t_paymentMethod = ''Debit Card'', t_id = 5\<rparr>),
       (6, \<lparr>t_userId = 2, t_accountId = 1, t_categoryId = Some 3, t_amount = 50,
              t_description = ''item'', t_date = 1704844800000, t_type = ''expense'',
              t_paymentMethod = ''Debit Card'', t_id = 6\<rparr>)],
    budgets =
      [(1, \<lparr>b_userId = 1, b_categoryId = 1, b_amount = 200, b_period = ''monthly'',
              b_startDate = 1704067200000, b_endDate = 1706745600000, b_id = 1\<rparr>),
       (2, \<lparr>b_userId = 2, b_categoryId = 3, b_amount = 100, b_period = ''monthly'',
              b_startDate = 1704067200000, b_endDate = 1706745600000, b_id = 2\<rparr>)],
    userIdCounter = 3, accountIdCounter = 2, categoryIdCounter = 4,
    transactionIdCounter = 7, budgetIdCounter = 3\<rparr>"
  by (simp add: exampleStore_def exampleCalls_def newMemStorage_def create_defs Let_def
        example_defs record_defs)

section \<open>The balance update of the repository\<close>

text \<open>
  C3. When an account with key \<open>ident\<close> is stored, \<open>updateAccountBalance ident b\<close>
  succeeds and returns that account with the balance \<open>b\<close> and with its id, userId,
  name, type and isConnected as stored; afterwards the key holds the returned record,
  every other key of the account map holds what it held, the order of the keys is the
  same, and the other four maps and the five counters are untouched.
\<close>

theorem updateAccountBalance_frame:
  assumes "getAccount ident s = Some account"
  shows "(case updateAccountBalance ident b s of
           (Inl e, s') \<Rightarrow> False
         | (Inr updated, s') \<Rightarrow>
             a_balance updated = b \<and> a_id updated = a_id account \<and>
             a_userId updated = a_userId account \<and> a_name updated = a_name account \<and>
             a_type updated = a_type account \<and>
             a_isConnected updated = a_isConnected account \<and>
             updated = account\<lparr>a_balance := b\<rparr> \<and>
             getAccount ident s' = Some updated \<and>
             (\<forall>k. k \<noteq> ident \<longrightarrow> getAccount k s' = getAccount k s) \<and>
             map fst (accounts s') = map fst (accounts s) \<and>
             users s' = users s \<and> categories s' = categories s \<and>
             transactions s' = transactions s \<and> budgets s' = budgets s \<and>
             userIdCounter s' = userIdCounter s \<and>
             accountIdCounter s' = accountIdCounter s \<and>
             categoryIdCounter s' = categoryIdCounter s \<and>
             transactionIdCounter s' = transactionIdCounter s \<and>
             budgetIdCounter s' = budgetIdCounter s)"
  using assms
  by (simp add: updateAccountBalance_def getAccount_def Let_def mapGet_mapSet
        mapSet_keys_present)

theorem updateAccountBalance_frame_witness:
  "getAccount 1 exampleStore = Some (InsertAccount.extend demoAccount (Account.fields 1)) \<and>
   fst (updateAccountBalance 1 100 exampleStore) =
     Inr \<lparr>a_userId = 1, a_name = ''Checking Account'', a_type = ''checking'',
          a_balance = 100, a_isConnected = False, a_id = 1\<rparr> \<and>
   users (snd (updateAccountBalance 1 100 exampleStore)) = users exampleStore \<and>
   transactions (snd (updateAccountBalance 1 100 exampleStore)) = transactions exampleStore"
proof -
  have g: "getAccount 1 exampleStore =
      Some (InsertAccount.extend demoAccount (Account.fields 1))"
    by (simp add: exampleStore_eq getAccount_def demoAccount_def record_defs)
  from updateAccountBalance_frame [OF g, of 100] g show ?thesis
    by (simp add: demoAccount_def record_defs split: prod.splits sum.splits)
qed

text \<open>
  C4. \<open>updateAccountBalance ident b\<close> fails exactly when no entry of the account map
  has the key \<open>ident\<close>; the failure is \<open>NotFound ident\<close>, and the store after a failed
  call is the store before it.
\<close>

theorem updateAccountBalance_NotFound:
  "(isl (fst (updateAccountBalance ident b s)) \<longleftrightarrow> ident \<notin> fst ` set (accounts s)) \<and>
   (isl (fst (updateAccountBalance ident b s)) \<longrightarrow>
      fst (updateAccountBalance ident b s) = Inl (NotFound ident) \<and>
      snd (updateAccountBalance ident b s) = s)"
  by (simp add: updateAccountBalance_def Let_def mapGet_None_iff [symmetric]
        split: option.splits)

theorem updateAccountBalance_NotFound_witness:
  "updateAccountBalance 7 100 exampleStore = (Inl (NotFound 7), exampleStore) \<and>
   \<not> isl (fst (updateAccountBalance 1 100 exampleStore))"
  using updateAccountBalance_NotFound [of 7 100 exampleStore]
        updateAccountBalance_NotFound [of 1 100 exampleStore]
  by (simp add: exampleStore_eq prod_eq_iff)

section \<open>Identifiers\<close>

lemma perform_result:
  "fst (perform c s) = (case createdKind c of None \<Rightarrow> None | Some k \<Rightarrow> Some (k, counterOf k s))"
  by (cases c) (simp_all add: create_defs Let_def record_defs)

lemma perform_counter:
  "counterOf k (snd (perform c s)) =
     (if createdKind c = Some k then Suc (counterOf k s) else counterOf k s)"
  by (cases c; cases k)
     (simp_all add: create_defs Let_def updateAccountBalance_def split: option.splits)

lemma idsOf_performAll:
  "idsOf k (fst (performAll cs s)) =
     [counterOf k s ..< counterOf k s + length (filter (\<lambda>c. createdKind c = Some k) cs)]"
proof (induction cs arbitrary: s)
  case Nil
  show ?case by (simp add: idsOf_def)
next
  case (Cons c cs)
  obtain r s1 where p: "perform c s = (r, s1)" by (cases "perform c s")
  obtain rs s2 where q: "performAll cs s1 = (rs, s2)" by (cases "performAll cs s1")
  have r: "r = (case createdKind c of None \<Rightarrow> None | Some k \<Rightarrow> Some (k, counterOf k s))"
    using perform_result [of c s] p by simp
  have c1: "counterOf k s1 =
      (if createdKind c = Some k then Suc (counterOf k s) else counterOf k s)"
    using perform_counter [of k c s] p by simp
  have ih: "idsOf k rs =
      [counterOf k s1 ..< counterOf k s1 + length (filter (\<lambda>c. createdKind c = Some k) cs)]"
    using Cons.IH [of s1] q by simp
  show ?case
  proof (cases "createdKind c = Some k")
    case True
    then show ?thesis using p q r c1 ih
      by (simp add: idsOf_def upt_conv_Cons del: upt_Suc)
  next
    case False
    then show ?thesis using p q r c1 ih
      by (auto simp add: idsOf_def simp del: upt_Suc split: option.splits)
  qed
qed

lemma mapSet_fresh: "k \<notin> fst ` set m \<Longrightarrow> mapSet m k v = m @ [(k, v)]"
  by (simp add: mapSet_keys_absent mapGet_None_iff)

lemma mapSet_present_values:
  "mapGet m k = Some w \<Longrightarrow> f v = f w \<Longrightarrow> map f (map snd (mapSet m k v)) = map f (map snd m)"
  by (induction m) (auto split: if_splits)

lemma storeInv_new: "storeInv newMemStorage"
  unfolding storeInv_def
proof
  fix k show "1 \<le> counterOf k newMemStorage \<and> keysOf k newMemStorage = [1 ..< counterOf k newMemStorage] \<and>
          storedIds k newMemStorage = [1 ..< counterOf k newMemStorage]"
    by (cases k) (simp_all add: newMemStorage_def mapValues_def)
qed

lemma upt_fresh: "map fst m = [1 ..< n] \<Longrightarrow> n \<notin> fst ` set m"
proof -
  assume "map fst m = [1 ..< n]"
  then have "set (map fst m) = set [1 ..< n]" by simp
  then show ?thesis by auto
qed

lemma storeInv_perform:
  assumes "storeInv s"
  shows "storeInv (snd (perform c s))"
  unfolding storeInv_def
proof
  fix k
  have inv: "1 \<le> counterOf k' s" "keysOf k' s = [1 ..< counterOf k' s]"
      "storedIds k' s = [1 ..< counterOf k' s]" for k'
    using assms by (simp_all add: storeInv_def)
  show "1 \<le> counterOf k (snd (perform c s)) \<and>
        keysOf k (snd (perform c s)) = [1 ..< counterOf k (snd (perform c s))] \<and>
        storedIds k (snd (perform c s)) = [1 ..< counterOf k (snd (perform c s))]"
  proof (cases c)
    case (CreateUser x now)
    have f: "userIdCounter s \<notin> fst ` set (users s)"
      using inv(2) [of UserKind] by (simp add: upt_fresh)
    show ?thesis using inv [of k] inv(1) [of UserKind] f CreateUser
      by (cases k) (simp_all add: createUser_def Let_def mapSet_fresh mapValues_def record_defs)
  next
    case (CreateAccount x)
    have f: "accountIdCounter s \<notin> fst ` set (accounts s)"
      using inv(2) [of AccountKind] by (simp add: upt_fresh)
    show ?thesis using inv [of k] inv(1) [of AccountKind] f CreateAccount
      by (cases k) (simp_all add: createAccount_def Let_def mapSet_fresh mapValues_def record_defs)
  next
    case (CreateCategory x)
    have f: "categoryIdCounter s \<notin> fst ` set (categories s)"
      using inv(2) [of CategoryKind] by (simp add: upt_fresh)
    show ?thesis using inv [of k] inv(1) [of CategoryKind] f CreateCategory
      by (cases k) (simp_all add: createCategory_def Let_def mapSet_fresh mapValues_def record_defs)
  next
    case (CreateTransaction x)
    have f: "transactionIdCounter s \<notin> fst ` set (transactions s)"
      using inv(2) [of TransactionKind] by (simp add: upt_fresh)
    show ?thesis using inv [of k] inv(1) [of TransactionKind] f CreateTransaction
      by (cases k) (simp_all add: createTransaction_def Let_def mapSet_fresh mapValues_def record_defs)
  next
    case (CreateBudget x)
    have f: "budgetIdCounter s \<notin> fst ` set (budgets s)"
      using inv(2) [of BudgetKind] by (simp add: upt_fresh)
    show ?thesis using inv [of k] inv(1) [of BudgetKind] f CreateBudget
      by (cases k) (simp_all add: createBudget_def Let_def mapSet_fresh mapValues_def record_defs)
  next
    case (UpdateAccountBalance i b)
    show ?thesis
    proof (cases "mapGet (accounts s) i")
      case None
      then show ?thesis using inv [of k] UpdateAccountBalance
        by (simp add: updateAccountBalance_def)
    next
      case (Some a)
      have "map a_id (map snd (mapSet (accounts s) i (a\<lparr>a_balance := b\<rparr>))) =
            map a_id (map snd (accounts s))"
        using Some by (intro mapSet_present_values [where w = a]) simp_all
      then show ?thesis using inv [of k] UpdateAccountBalance Some
        by (cases k)
           (simp_all add: updateAccountBalance_def Let_def mapValues_def mapSet_keys_present)
    qed
  qed
qed

lemma storeInv_performAll: "storeInv s \<Longrightarrow> storeInv (snd (performAll cs s))"
proof (induction cs arbitrary: s)
  case Nil
  then show ?case by simp
next
  case (Cons c cs)
  have "storeInv (snd (perform c s))" using Cons.prems by (rule storeInv_perform)
  then have "storeInv (snd (performAll cs (snd (perform c s))))" by (rule Cons.IH)
  then show ?case by (simp add: split_beta)
qed

lemma counter_performAll:
  "counterOf k (snd (performAll cs s)) =
     counterOf k s + length (filter (\<lambda>c. createdKind c = Some k) cs)"
proof (induction cs arbitrary: s)
  case Nil
  show ?case by simp
next
  case (Cons c cs)
  show ?case using Cons.IH [of "snd (perform c s)"] perform_counter [of k c s]
    by (simp add: split_beta)
qed

text \<open>
  C5. Run any sequence of repository calls on a fresh store. For every entity kind, the
  ids returned by the \<^verbatim>\<open>create\<close> calls of that kind are, in call order,
  \<open>1, 2, ..., N\<close>, where \<open>N\<close> is the number of those calls; they are distinct and none
  is 0. The keys of the kind's map and the ids of the entities stored in it are the same
  list, so no id is given to two entities and no entity changes its id. A sequence of
  \<open>N\<close> calls of one kind is the special case.
\<close>

theorem create_ids_sequential:
  "idsOf k (fst (performAll cs newMemStorage)) =
     [1 ..< Suc (length (filter (\<lambda>c. createdKind c = Some k) cs))] \<and>
   distinct (idsOf k (fst (performAll cs newMemStorage))) \<and>
   0 \<notin> set (idsOf k (fst (performAll cs newMemStorage))) \<and>
   keysOf k (snd (performAll cs newMemStorage)) = idsOf k (fst (performAll cs newMemStorage)) \<and>
   storedIds k (snd (performAll cs newMemStorage)) = idsOf k (fst (performAll cs newMemStorage))"
proof -
  have c: "counterOf k newMemStorage = 1"
    by (cases k) (simp_all add: newMemStorage_def)
  have ids: "idsOf k (fst (performAll cs newMemStorage)) =
     [1 ..< Suc (length (filter (\<lambda>c. createdKind c = Some k) cs))]"
    using idsOf_performAll [of k cs newMemStorage] c by (simp del: upt_Suc)
  have inv: "storeInv (snd (performAll cs newMemStorage))"
    using storeInv_new by (rule storeInv_performAll)
  have cnt: "counterOf k (snd (performAll cs newMemStorage)) =
      Suc (length (filter (\<lambda>c. createdKind c = Some k) cs))"
    using counter_performAll [of k cs newMemStorage] c by simp
  show ?thesis using ids inv cnt by (simp add: storeInv_def del: upt_Suc)
qed

section \<open>Transaction queries\<close>

lemma mset_insertBy: "mset (insertBy f x xs) = add_mset x (mset xs)"
  by (induction xs) simp_all

lemma mset_arraySort: "mset (arraySort f xs) = mset xs"
  by (induction xs) (simp_all add: arraySort_def mset_insertBy)

lemma sum_list_mset_cong:
  "mset xs = mset ys \<Longrightarrow> sum_list (map f xs) = sum_list (map f ys)"
  for f :: "'a \<Rightarrow> real"
  by (metis mset_map sum_mset_sum_list)

lemma set_arraySort: "set (arraySort f xs) = set xs"
  using mset_arraySort [of f xs] by (metis set_mset_mset)

lemma length_arraySort: "length (arraySort f xs) = length xs"
  using mset_arraySort [of f xs] by (metis size_mset)





lemma arraySlice_negative:
  "arraySlice 0 (- int (Suc n)) xs = take (length xs - Suc n) xs"
proof -
  have "nat (int (length xs) + (- 1 - int n)) = length xs - Suc n"
    by arith
  then show ?thesis
    by (simp add: arraySlice_def Let_def max_def)
qed


lemma example_descending:
  "map t_id (getTransactionsByUserId 1 exampleStore) = [4, 2, 3, 1, 5]"
  "map t_id (getRecentTransactions 1 2 exampleStore) = [4, 2]"
  by (simp_all add: getTransactionsByUserId_def getRecentTransactions_def arraySlice_def
        exampleStore_eq mapValues_def arraySort_def byDateDesc_def)

text \<open>
  C6. \<open>getTransactionsByDateRange\<close> returns the stored transactions of the user whose
  date \<open>d\<close> satisfies \<open>startDate \<le> d \<le> endDate\<close>, each as often as it is stored;
  every returned transaction lies within the bounds, and when the range is not empty
  (\<open>startDate \<le> endDate\<close>) a transaction of the user dated exactly \<open>startDate\<close> or
  exactly \<open>endDate\<close> is returned.
\<close>

theorem dateRange_inclusive:
  "mset (getTransactionsByDateRange u a b s) =
     mset (filter (\<lambda>t. t_userId t = u \<and> a \<le> t_date t \<and> t_date t \<le> b)
             (mapValues (transactions s))) \<and>
   (\<forall>t. t \<in> set (getTransactionsByDateRange u a b s) \<longrightarrow> a \<le> t_date t \<and> t_date t \<le> b) \<and>
   (a \<le> b \<longrightarrow>
      (\<forall>t. t \<in> set (mapValues (transactions s)) \<and> t_userId t = u \<and>
           (t_date t = a \<or> t_date t = b) \<longrightarrow>
           t \<in> set (getTransactionsByDateRange u a b s)))"
  by (auto simp add: getTransactionsByDateRange_def mset_arraySort set_arraySort Let_def)

theorem dateRange_inclusive_witness:
  "jan1 \<le> jan15 \<and>
   storedTxn 1 (txn 1 (Some 1) 50 jan1 ''expense'') \<in> set (mapValues (transactions exampleStore)) \<and>
   storedTxn 2 (txn 1 (Some 1) 30 jan15 ''expense'') \<in> set (mapValues (transactions exampleStore)) \<and>
   storedTxn 1 (txn 1 (Some 1) 50 jan1 ''expense'') \<in>
     set (getTransactionsByDateRange 1 jan1 jan15 exampleStore) \<and>
   storedTxn 2 (txn 1 (Some 1) 30 jan15 ''expense'') \<in>
     set (getTransactionsByDateRange 1 jan1 jan15 exampleStore)"
  using dateRange_inclusive [of 1 jan1 jan15 exampleStore]
  by (simp add: exampleStore_eq mapValues_def storedTxn_def example_defs record_defs)

section \<open>Monthly summary\<close>

text \<open>
  In exact arithmetic the value of a month is the sum of its amounts, in any order, and
  the percent change of finite values is the real quotient. With a previous value of 0
  the formula itself is an infinity or \<^verbatim>\<open>NaN\<close>, whatever the rounding.
\<close>

lemma foldl_jsAdd_exact:
  "foldl (\<lambda>sum x. jsAdd Finite sum (Finite (f x))) (Finite a) xs =
     Finite (a + sum_list (map f xs))"
  by (induction xs arbitrary: a) (simp_all add: algebra_simps)

lemma sumAmounts_exact: "sumAmounts Finite ts = Finite (sum_list (map t_amount ts))"
  by (simp add: sumAmounts_def foldl_jsAdd_exact)

lemma monthSum_exact: "monthSum Finite ty u lo hi s = Finite (monthTotal ty u lo hi s)"
proof -
  have "sum_list (map t_amount
          (filter (\<lambda>t. t_type t = ty)
             (arraySort byDateDesc
                (filter (\<lambda>t. t_userId t = u \<and> lo \<le> t_date t \<and> t_date t \<le> hi)
                   (mapValues (transactions s)))))) =
        sum_list (map t_amount
          (filter (\<lambda>t. t_type t = ty)
             (filter (\<lambda>t. t_userId t = u \<and> lo \<le> t_date t \<and> t_date t \<le> hi)
                (mapValues (transactions s)))))"
    by (rule sum_list_mset_cong) (simp only: mset_filter mset_arraySort)
  also have "\<dots> = monthTotal ty u lo hi s"
    by (simp add: monthTotal_def conj_ac cong: conj_cong)
  finally show ?thesis
    by (simp add: monthSum_def sumAmounts_exact getTransactionsByDateRange_def Let_def)
qed

lemma percentChange_exact:
  "p \<noteq> 0 \<Longrightarrow> percentChange Finite (Finite c) (Finite p) = Finite ((c - p) / p * 100)"
  by (simp add: percentChange_def jsSub_def)

lemma percentChange_zero_not_finite:
  "percentChange rnd current (Finite 0) \<in> {PosInfinity, NegInfinity, NaN}"
proof (cases current)
  case (Finite c)
  then show ?thesis
    by (cases "rnd (c + - 0)") (simp_all add: percentChange_def jsSub_def)
qed (simp_all add: percentChange_def jsSub_def)

lemma getSummary_fields:
  "incomeChange (getSummary rnd u cs ce ps pe s) =
     (if monthSum rnd ''income'' u ps pe s = Finite 0 then Finite 0
      else percentChange rnd (monthSum rnd ''income'' u cs ce s)
             (monthSum rnd ''income'' u ps pe s))"
  "expensesChange (getSummary rnd u cs ce ps pe s) =
     (if monthSum rnd ''expense'' u ps pe s = Finite 0 then Finite 0
      else percentChange rnd (monthSum rnd ''expense'' u cs ce s)
             (monthSum rnd ''expense'' u ps pe s))"
  "savingsChange (getSummary rnd u cs ce ps pe s) =
     (if monthSavings rnd u ps pe s = Finite 0 then Finite 0
      else percentChange rnd (monthSavings rnd u cs ce s) (monthSavings rnd u ps pe s))"
  by (simp_all add: getSummary_def Let_def monthSum_def monthSavings_def percentChange_def)

text \<open>
  C8. In the summary, for income, expenses and savings (income minus expenses), with the
  values of the current and of the previous month as the handler adds them up: the
  change is the number 0, and so neither an infinity nor \<^verbatim>\<open>NaN\<close>, when the
  previous month's value is 0, and it is \<open>((current - previous) / previous) * 100\<close>
  in the machine's arithmetic otherwise. This holds for every rounding \<open>rnd\<close>.
\<close>

theorem percent_change:
  "(monthSum rnd ''income'' u ps pe s = Finite 0 \<longrightarrow>
      incomeChange (getSummary rnd u cs ce ps pe s) = Finite 0) \<and>
   (monthSum rnd ''income'' u ps pe s \<noteq> Finite 0 \<longrightarrow>
      incomeChange (getSummary rnd u cs ce ps pe s) =
        percentChange rnd (monthSum rnd ''income'' u cs ce s)
          (monthSum rnd ''income'' u ps pe s)) \<and>
   (monthSum rnd ''expense'' u ps pe s = Finite 0 \<longrightarrow>
      expensesChange (getSummary rnd u cs ce ps pe s) = Finite 0) \<and>
   (monthSum rnd ''expense'' u ps pe s \<noteq> Finite 0 \<longrightarrow>
      expensesChange (getSummary rnd u cs ce ps pe s) =
        percentChange rnd (monthSum rnd ''expense'' u cs ce s)
          (monthSum rnd ''expense'' u ps pe s)) \<and>
   (monthSavings rnd u ps pe s = Finite 0 \<longrightarrow>
      savingsChange (getSummary rnd u cs ce ps pe s) = Finite 0) \<and>
   (monthSavings rnd u ps pe s \<noteq> Finite 0 \<longrightarrow>
      savingsChange (getSummary rnd u cs ce ps pe s) =
        percentChange rnd (monthSavings rnd u cs ce s) (monthSavings rnd u ps pe s))"
  by (simp add: getSummary_fields)

lemma example_totals:
  "monthTotal ''income'' 1 jan1 janEnd exampleStore = 500"
  "monthTotal ''income'' 1 dec1 decEnd exampleStore = 0"
  "monthTotal ''expense'' 1 jan1 janEnd exampleStore = 100"
  "monthTotal ''expense'' 1 dec1 decEnd exampleStore = 40"
  by (simp_all add: monthTotal_def exampleStore_eq mapValues_def example_defs)

lemma example_sums:
  "monthSum Finite ''income'' 1 jan1 janEnd exampleStore = Finite 500"
  "monthSum Finite ''income'' 1 dec1 decEnd exampleStore = Finite 0"
  "monthSum Finite ''expense'' 1 jan1 janEnd exampleStore = Finite 100"
  "monthSum Finite ''expense'' 1 dec1 decEnd exampleStore = Finite 40"
  "monthSavings Finite 1 jan1 janEnd exampleStore = Finite 400"
  "monthSavings Finite 1 dec1 decEnd exampleStore = Finite (- 40)"
  using example_totals by (simp_all add: monthSum_exact monthSavings_def jsSub_def)

theorem percent_change_witness:
  "monthSum Finite ''income'' 1 dec1 decEnd exampleStore = Finite 0 \<and>
   monthSum Finite ''income'' 1 jan1 janEnd exampleStore = Finite 500 \<and>
   incomeChange (getSummary Finite 1 jan1 janEnd dec1 decEnd exampleStore) = Finite 0 \<and>
   percentChange Finite (Finite 500) (Finite 0) = PosInfinity \<and>
   monthSum Finite ''expense'' 1 dec1 decEnd exampleStore = Finite 40 \<and>
   monthSum Finite ''expense'' 1 jan1 janEnd exampleStore = Finite 100 \<and>
   expensesChange (getSummary Finite 1 jan1 janEnd dec1 decEnd exampleStore) = Finite 150 \<and>
   savingsChange (getSummary Finite 1 jan1 janEnd dec1 decEnd exampleStore) = Finite (- 1100)"
  using percent_change [of Finite 1 dec1 decEnd exampleStore jan1 janEnd] example_sums
  by (simp add: percentChange_def jsSub_def)

section \<open>Budget progress\<close>
















section \<open>Creating a transaction\<close>

lemma createTransaction_eq:
  "createTransaction v s =
     (InsertTransaction.extend v (Transaction.fields (transactionIdCounter s)),
      s\<lparr>transactionIdCounter := transactionIdCounter s + 1,
        transactions := mapSet (transactions s) (transactionIdCounter s)
          (InsertTransaction.extend v (Transaction.fields (transactionIdCounter s)))\<rparr>)"
  by (simp add: createTransaction_def Let_def)

lemma example_account:
  "getAccount 1 exampleStore = Some (InsertAccount.extend demoAccount (Account.fields 1))"
  "getAccount 9 exampleStore = None"
  by (simp_all add: exampleStore_eq getAccount_def demoAccount_def record_defs)



text \<open>
  C10. When the schema accepts the request and no account is stored under the accountId
  of the validated record, \<^verbatim>\<open>POST /api/transactions\<close> still answers 201 with the
  created transaction and stores it; the balance update is skipped and the account map
  is what it was.
\<close>

theorem postTransactions_missing_account:
  assumes "parse (reqBody\<lparr>t_userId := userId\<rparr>) = Some v"
    and "getAccount (t_accountId v) s = None"
  shows "(case postTransactions parse userId reqBody s of
            (response, s') \<Rightarrow>
              response = Response 201
                (TransactionJson (InsertTransaction.extend v (Transaction.fields (transactionIdCounter s)))) \<and>
              mapGet (transactions s') (transactionIdCounter s) =
                Some (InsertTransaction.extend v (Transaction.fields (transactionIdCounter s))) \<and>
              accounts s' = accounts s)"
  using assms
  by (simp add: postTransactions_def createTransaction_eq getAccount_def Let_def mapGet_mapSet)

theorem postTransactions_missing_account_witness:
  "acceptAll (orphanRequest\<lparr>t_userId := 1\<rparr>) = Some (orphanRequest\<lparr>t_userId := 1\<rparr>) \<and>
   t_accountId (orphanRequest\<lparr>t_userId := 1\<rparr>) = 9 \<and>
   getAccount 9 exampleStore = None \<and>
   status (fst (postTransactions acceptAll 1 orphanRequest exampleStore)) = 201 \<and>
   accounts (snd (postTransactions acceptAll 1 orphanRequest exampleStore)) =
     accounts exampleStore"
proof -
  have p: "acceptAll (orphanRequest\<lparr>t_userId := 1\<rparr>) = Some (orphanRequest\<lparr>t_userId := 1\<rparr>)"
    by (simp add: acceptAll_def)
  have f: "t_accountId (orphanRequest\<lparr>t_userId := 1\<rparr>) = 9"
    by (simp add: orphanRequest_def txn_def)
  have g: "getAccount (t_accountId (orphanRequest\<lparr>t_userId := 1\<rparr>)) exampleStore = None"
    unfolding f by (rule example_account)
  obtain response s' where r:
    "postTransactions acceptAll 1 orphanRequest exampleStore = (response, s')"
    by (cases "postTransactions acceptAll 1 orphanRequest exampleStore")
  have "response = Response 201 (TransactionJson (InsertTransaction.extend
            (orphanRequest\<lparr>t_userId := 1\<rparr>) (Transaction.fields (transactionIdCounter exampleStore))))"
    and "accounts s' = accounts exampleStore"
    using postTransactions_missing_account [where parse = acceptAll and reqBody = orphanRequest and userId = 1, OF p g]
    unfolding r by simp_all
  then show ?thesis using p f r example_account(2) by simp
qed

section \<open>Transaction feed\<close>

lemma utc_examples:
  "subDays utcDateLib jan15 7 = 1704672000000"
  "startOfYear utcDateLib jan15 = 1704067200000"
  "utcYear jan15 = 2024"
  "utcYear decEnd = 2023"
  "utcYearStart 2024 = jan1"
  by code_simp+

text \<open>
  C9, as the code has it. The values \<open>7days\<close>, \<open>30days\<close> and \<open>90days\<close> start the
  window 7, 30 and 90 days before now, the value \<open>year\<close> starts it at the start of the
  current year, and every other value, as well as a missing one, starts it 7 days before
  now; the feed is the date-range query from that start to now.
\<close>

theorem feedStartDate_cases:
  "feedStartDate lib (Some ''7days'') now = subDays lib now 7 \<and>
   feedStartDate lib (Some ''30days'') now = subDays lib now 30 \<and>
   feedStartDate lib (Some ''90days'') now = subDays lib now 90 \<and>
   feedStartDate lib (Some ''year'') now = startOfYear lib now \<and>
   (timeFrame \<noteq> Some ''7days'' \<and> timeFrame \<noteq> Some ''30days'' \<and>
    timeFrame \<noteq> Some ''90days'' \<and> timeFrame \<noteq> Some ''year'' \<longrightarrow>
      feedStartDate lib timeFrame now = subDays lib now 7) \<and>
   getTransactionsFeed lib u timeFrame None now s =
     Response 200 (TransactionsJson
       (getTransactionsByDateRange u (feedStartDate lib timeFrame now) now s))"
  by (simp add: feedStartDate_def getTransactionsFeed_def Let_def)

theorem feedStartDate_cases_witness:
  "Some ''year-to-date'' \<noteq> Some ''7days'' \<and> Some ''year-to-date'' \<noteq> Some ''30days'' \<and>
   Some ''year-to-date'' \<noteq> Some ''90days'' \<and> Some ''year-to-date'' \<noteq> Some ''year'' \<and>
   feedStartDate utcDateLib (Some ''year-to-date'') jan15 = subDays utcDateLib jan15 7 \<and>
   feedStartDate utcDateLib None jan15 = subDays utcDateLib jan15 7 \<and>
   feedStartDate utcDateLib (Some ''year'') jan15 = startOfYear utcDateLib jan15"
  using feedStartDate_cases [of utcDateLib jan15 "Some ''year-to-date''"]
        feedStartDate_cases [of utcDateLib jan15 None]
  by simp

text \<open>
  C9 as stated fails at the value \<open>year-to-date\<close>: the \<^verbatim>\<open>switch\<close> has no such case
  (its label is \<open>year\<close>), so on 15 January 2024 the window starts on 8 January and not
  on 1 January.
\<close>

theorem year_to_date_counterexample:
  "feedStartDate utcDateLib (Some ''year-to-date'') jan15 = 1704672000000 \<and>
   startOfYear utcDateLib jan15 = 1704067200000 \<and>
   feedStartDate utcDateLib (Some ''year-to-date'') jan15 \<noteq> startOfYear utcDateLib jan15"
  by (simp add: feedStartDate_def utc_examples)

end
